theory Spec2Isabelle
  imports Complex_Main
begin

section \<open>JavaScript values used by ui.resource.Image\<close>

text \<open>
  The numeric properties and arguments of \<^verbatim>\<open>src/ui/resource/Image.js\<close> hold either a
  number or \<^verbatim>\<open>undefined\<close> (an omitted argument, a property nobody assigned). Numbers are
  modelled exactly: a finite number is a rational, and the three non-finite numbers of an
  IEEE double are kept apart, since a division by zero produces them and the code stores
  and reuses the quotient. Two idealisations: finite results are not rounded to a double,
  and zero has no sign (dividing a nonzero number by zero gives the infinity of the
  sign of the dividend).
\<close>

datatype jsval = Undef | Fin rat | PInf | NInf | NaN

text \<open>ToNumber: \<^verbatim>\<open>undefined\<close> becomes NaN.\<close>

fun to_number :: "jsval \<Rightarrow> jsval" where
  "to_number Undef = NaN"
| "to_number v = v"

text \<open>ToBoolean: \<^verbatim>\<open>undefined\<close>, \<^verbatim>\<open>0\<close> and \<^verbatim>\<open>NaN\<close> are falsy.\<close>

fun truthy :: "jsval \<Rightarrow> bool" where
  "truthy Undef = False"
| "truthy NaN = False"
| "truthy (Fin r) = (r \<noteq> 0)"
| "truthy PInf = True"
| "truthy NInf = True"

text \<open>\<^verbatim>\<open>a || b\<close> on values.\<close>

definition js_or :: "jsval \<Rightarrow> jsval \<Rightarrow> jsval" where
  "js_or a b = (if truthy a then a else b)"

text \<open>\<^verbatim>\<open>a === b\<close>: NaN is equal to nothing, not even to itself.\<close>

definition strict_eq :: "jsval \<Rightarrow> jsval \<Rightarrow> bool" where
  "strict_eq a b = (a \<noteq> NaN \<and> a = b)"

text \<open>\<^verbatim>\<open>a <= b\<close>: false as soon as one side converts to NaN.\<close>

fun js_le :: "jsval \<Rightarrow> jsval \<Rightarrow> bool" where
  "js_le (Fin a) (Fin b) = (a \<le> b)"
| "js_le (Fin a) PInf = True"
| "js_le NInf (Fin b) = True"
| "js_le NInf NInf = True"
| "js_le NInf PInf = True"
| "js_le PInf PInf = True"
| "js_le _ _ = False"

fun add_num :: "jsval \<Rightarrow> jsval \<Rightarrow> jsval" where
  "add_num (Fin a) (Fin b) = Fin (a + b)"
| "add_num (Fin a) PInf = PInf"
| "add_num (Fin a) NInf = NInf"
| "add_num PInf (Fin b) = PInf"
| "add_num NInf (Fin b) = NInf"
| "add_num PInf PInf = PInf"
| "add_num NInf NInf = NInf"
| "add_num _ _ = NaN"

definition js_add :: "jsval \<Rightarrow> jsval \<Rightarrow> jsval" where
  "js_add a b = add_num (to_number a) (to_number b)"

text \<open>The infinity with the sign of a nonzero rational, and its opposite.\<close>

definition inf_of :: "rat \<Rightarrow> jsval" where
  "inf_of r = (if 0 < r then PInf else NInf)"

fun mul_num :: "jsval \<Rightarrow> jsval \<Rightarrow> jsval" where
  "mul_num (Fin a) (Fin b) = Fin (a * b)"
| "mul_num (Fin a) PInf = (if a = 0 then NaN else inf_of a)"
| "mul_num (Fin a) NInf = (if a = 0 then NaN else inf_of (- a))"
| "mul_num PInf (Fin b) = (if b = 0 then NaN else inf_of b)"
| "mul_num NInf (Fin b) = (if b = 0 then NaN else inf_of (- b))"
| "mul_num PInf PInf = PInf"
| "mul_num NInf NInf = PInf"
| "mul_num PInf NInf = NInf"
| "mul_num NInf PInf = NInf"
| "mul_num _ _ = NaN"

definition js_mul :: "jsval \<Rightarrow> jsval \<Rightarrow> jsval" where
  "js_mul a b = mul_num (to_number a) (to_number b)"

fun div_num :: "jsval \<Rightarrow> jsval \<Rightarrow> jsval" where
  "div_num (Fin a) (Fin b) =
     (if b = 0 then (if a = 0 then NaN else inf_of a) else Fin (a / b))"
| "div_num (Fin a) PInf = Fin 0"
| "div_num (Fin a) NInf = Fin 0"
| "div_num PInf (Fin b) = (if b < 0 then NInf else PInf)"
| "div_num NInf (Fin b) = (if b < 0 then PInf else NInf)"
| "div_num _ _ = NaN"

definition js_div :: "jsval \<Rightarrow> jsval \<Rightarrow> jsval" where
  "js_div a b = div_num (to_number a) (to_number b)"

section \<open>The region map\<close>

text \<open>
  \<^verbatim>\<open>ImageMap\<close> (lines 60-76). \<^verbatim>\<open>init\<close> assigns nine properties; \<^verbatim>\<open>scale\<close> is not among
  them, so a fresh map reads \<^verbatim>\<open>undefined\<close> there until the resource loader writes it.
  The URL is a string or \<^verbatim>\<open>undefined\<close> (\<^verbatim>\<open>_onLoad\<close> copies the surface's \<^verbatim>\<open>src\<close> into it, and a
  canvas has none).
\<close>

record imagemap =
  murl :: "string option"
  mx :: jsval
  my :: jsval
  mwidth :: jsval
  mheight :: jsval
  marginTop :: jsval
  marginRight :: jsval
  marginBottom :: jsval
  marginLeft :: jsval
  mscale :: jsval

definition ImageMap_init ::
  "jsval \<Rightarrow> jsval \<Rightarrow> jsval \<Rightarrow> jsval \<Rightarrow> jsval \<Rightarrow> jsval \<Rightarrow> jsval \<Rightarrow> jsval \<Rightarrow> string option \<Rightarrow> imagemap" where
  "ImageMap_init x y width height mTop mRight mBottom mLeft url =
     \<lparr> murl = url, mx = x, my = y, mwidth = width, mheight = height,
       marginTop = mTop, marginRight = mRight, marginBottom = mBottom, marginLeft = mLeft,
       mscale = Undef \<rparr>"

section \<open>Surfaces, images and the surface cache\<close>

text \<open>
  Surfaces (DOM images, canvases) and Image instances are objects compared by identity
  and shared between holders, so they live in a store and are named by references.
\<close>

type_synonym sid = nat
type_synonym iid = nat

text \<open>
  Modelled from the spec: \<^verbatim>\<open>event.Callback\<close> is imported by the file and defined elsewhere.
  The spec calls it a one-shot (per load attempt), multi-subscriber aggregator: \<^verbatim>\<open>fire\<close>
  keeps its arguments and is ignored once fired, \<^verbatim>\<open>run\<close> calls the subscriber at once
  when already fired and queues it otherwise, \<^verbatim>\<open>reset\<close> gives a fresh notifier for the
  next attempt. The image's own notifier \<^verbatim>\<open>_cb\<close> is kept as its fired flag and payload
  (its subscribers are callbacks of the caller); a surface's \<^verbatim>\<open>__cb\<close> queues the closures
  \<^verbatim>\<open>function (err) { this._onLoad(err, img); }\<close>, each stood for by the Image it is bound to.
\<close>

datatype payload = NoImage | Ready

record notifier =
  n_fired :: bool
  n_args :: "payload option"

definition cb_new :: notifier where
  "cb_new = \<lparr> n_fired = False, n_args = None \<rparr>"

definition cb_reset :: "notifier \<Rightarrow> notifier" where
  "cb_reset n = \<lparr> n_fired = False, n_args = None \<rparr>"

definition cb_fire :: "notifier \<Rightarrow> payload \<Rightarrow> notifier" where
  "cb_fire n p = (if n_fired n then n else \<lparr> n_fired = True, n_args = Some p \<rparr>)"

record scb =
  scb_fired :: bool
  scb_err :: "bool option"
  scb_run :: "iid list"

record surface =
  s_width :: jsval
  s_height :: jsval
  s_src :: "string option"
  s_canvas :: bool
  s_destroy :: bool
  s_cb :: "scb option"

record image =
  i_cb :: notifier
  i_map :: imagemap
  i_originalURL :: string
  i_scale :: jsval
  i_isError :: bool
  i_srcImg :: "sid option"

text \<open>What the code does to its surroundings, in order.\<close>

datatype event =
    LogError "string option"
  | LogWarn
  | SetSrc sid string
  | Destroy sid
  | DeleteTexture string

text \<open>A pending \<^verbatim>\<open>setTimeout(bind(this, imageOnLoad, success, evt, n), 0)\<close>.\<close>

record task =
  t_this :: sid
  t_success :: bool
  t_failCount :: jsval

text \<open>
  \<^verbatim>\<open>ImageCache\<close> holds the surfaces the code inserted; \<^verbatim>\<open>cache_proto\<close> is the surface that an
  assignment \<^verbatim>\<open>ImageCache['__proto__'] = img\<close> made the prototype of the cache object, if any.
\<close>

record world =
  surfaces :: "sid \<Rightarrow> surface option"
  next_sid :: sid
  images :: "iid \<Rightarrow> image option"
  next_iid :: iid
  ImageCache :: "string \<Rightarrow> sid option"
  cache_proto :: "sid option"
  timers :: "task list"
  trace :: "event list"

text \<open>A string is truthy when it is defined and not empty.\<close>

fun str_truthy :: "string option \<Rightarrow> bool" where
  "str_truthy None = False"
| "str_truthy (Some u) = (u \<noteq> [])"

section \<open>The load controller\<close>

text \<open>
  \<^verbatim>\<open>_onLoad\<close> (lines 314-363). A dangling reference cannot occur in the program; the
  model leaves the world as it is there.
\<close>

definition infer_dims :: "jsval \<Rightarrow> imagemap \<Rightarrow> surface \<Rightarrow> imagemap \<times> surface" where
  "infer_dims scale m s =
     (if \<not> strict_eq scale (Fin 1)
         \<and> (\<not> strict_eq (mwidth m) (Fin (- 1)) \<or> \<not> strict_eq (mheight m) (Fin (- 1)))
      then
        let m1 = (if strict_eq (mwidth m) (Fin (- 1))
                  then m\<lparr>mwidth := js_div (js_mul (s_width s) (mheight m)) (s_height s)\<rparr>
                  else m);
            m2 = (if strict_eq (mheight m1) (Fin (- 1))
                  then m1\<lparr>mheight := js_div (js_mul (s_height s) (mwidth m1)) (s_width s)\<rparr>
                  else m1)
        in (m2, s\<lparr>s_width := mwidth m2, s_height := mheight m2\<rparr>)
      else
        let m1 = (if strict_eq (mwidth m) (Fin (- 1)) then m\<lparr>mwidth := s_width s\<rparr> else m);
            m2 = (if strict_eq (mheight m1) (Fin (- 1)) then m1\<lparr>mheight := s_height s\<rparr> else m1)
        in (m2, s))"

definition Image_onLoad :: "world \<Rightarrow> iid \<Rightarrow> bool \<Rightarrow> sid \<Rightarrow> world" where
  "Image_onLoad w i err img =
     (case images w i of
        None \<Rightarrow> w
      | Some im \<Rightarrow>
          if Some img \<noteq> i_srcImg im then w
          else if err then
            w\<lparr>trace := trace w @ [LogError (murl (i_map im))],
              images := (images w)(i \<mapsto> im\<lparr>i_isError := True, i_cb := cb_fire (i_cb im) NoImage\<rparr>)\<rparr>
          else
            (case surfaces w img of
               None \<Rightarrow> w
             | Some s \<Rightarrow>
                 let (m, s') = infer_dims (i_scale im) (i_map im) s
                 in w\<lparr>trace := trace w @ (if strict_eq (s_width s) (Fin 0) then [LogWarn] else []),
                      surfaces := (surfaces w)(img \<mapsto> s'),
                      images := (images w)(i \<mapsto>
                        im\<lparr>i_isError := False, i_map := m\<lparr>murl := s_src s'\<rparr>,
                           i_cb := cb_fire (i_cb im) Ready\<rparr>)\<rparr>))"

text \<open>\<^verbatim>\<open>img.__cb.fire(err)\<close>: once only; every queued closure runs, in order.\<close>

definition scb_fire :: "world \<Rightarrow> sid \<Rightarrow> bool \<Rightarrow> world" where
  "scb_fire w img err =
     (case surfaces w img of
        None \<Rightarrow> w
      | Some s \<Rightarrow>
          (case s_cb s of
             None \<Rightarrow> w
           | Some c \<Rightarrow>
               if scb_fired c then w
               else foldl (\<lambda>w' j. Image_onLoad w' j err img)
                      (w\<lparr>surfaces := (surfaces w)(img \<mapsto>
                           s\<lparr>s_cb := Some \<lparr> scb_fired = True, scb_err = Some err, scb_run = [] \<rparr>\<rparr>)\<rparr>)
                      (scb_run c)))"

text \<open>\<^verbatim>\<open>img.__cb.run(this, function (err) { this._onLoad(err, img); })\<close>.\<close>

definition scb_subscribe :: "world \<Rightarrow> sid \<Rightarrow> iid \<Rightarrow> world" where
  "scb_subscribe w img i =
     (case surfaces w img of
        None \<Rightarrow> w
      | Some s \<Rightarrow>
          (case s_cb s of
             None \<Rightarrow> w
           | Some c \<Rightarrow>
               if scb_fired c then Image_onLoad w i (scb_err c = Some True) img
               else w\<lparr>surfaces := (surfaces w)(img \<mapsto> s\<lparr>s_cb := Some (c\<lparr>scb_run := scb_run c @ [i]\<rparr>)\<rparr>)\<rparr>))"

text \<open>
  \<^verbatim>\<open>imageOnLoad\<close> (lines 41-54), with \<^verbatim>\<open>this\<close> the surface. The listeners are
  \<^verbatim>\<open>bind(img, imageOnLoad, true)\<close> and \<^verbatim>\<open>bind(img, imageOnLoad, false)\<close>: the event is the
  second argument and \<^verbatim>\<open>failCount\<close> is \<^verbatim>\<open>undefined\<close> when the platform calls them.
\<close>

definition imageOnLoad :: "world \<Rightarrow> sid \<Rightarrow> bool \<Rightarrow> jsval \<Rightarrow> world" where
  "imageOnLoad w this success failCount =
     (case surfaces w this of
        None \<Rightarrow> w
      | Some s \<Rightarrow>
          if success \<and> \<not> truthy (s_width s) then
            (if js_le failCount (Fin 3)
             then w\<lparr>timers := timers w @
                    [\<lparr> t_this = this, t_success = success,
                       t_failCount = js_add (js_or failCount (Fin 0)) (Fin 1) \<rparr>]\<rparr>
             else scb_fire w this False)
          else scb_fire w this (\<not> success))"

text \<open>
  The platform's side: a \<^verbatim>\<open>load\<close> or \<^verbatim>\<open>error\<close> event on a surface that has listeners,
  the decoder publishing the natural size of a surface, and the scheduler running the
  oldest pending timeout.
\<close>

definition dom_event :: "world \<Rightarrow> sid \<Rightarrow> bool \<Rightarrow> world" where
  "dom_event w img success =
     (case surfaces w img of
        None \<Rightarrow> w
      | Some s \<Rightarrow> if s_cb s = None then w else imageOnLoad w img success Undef)"

definition dom_decoded :: "world \<Rightarrow> sid \<Rightarrow> jsval \<Rightarrow> jsval \<Rightarrow> world" where
  "dom_decoded w img wd ht =
     (case surfaces w img of
        None \<Rightarrow> w
      | Some s \<Rightarrow> w\<lparr>surfaces := (surfaces w)(img \<mapsto> s\<lparr>s_width := wd, s_height := ht\<rparr>)\<rparr>)"

definition run_timer :: "world \<Rightarrow> world" where
  "run_timer w =
     (case timers w of
        [] \<Rightarrow> w
      | t # ts \<Rightarrow> imageOnLoad (w\<lparr>timers := ts\<rparr>) (t_this t) (t_success t) (t_failCount t))"


text \<open>
  The collaborators of the load controller that the file only calls.
  \<^verbatim>\<open>Image.get\<close> is the preload lookup, absent on most platforms: it answers with a decoded
  image object, with an alternate (inline-encoded) URL, or with nothing.
  \<^verbatim>\<open>resourceLoader._updateImageMap(map, url, x, y, w, h)\<close> rewrites the region map; it is a
  parameter. \<^verbatim>\<open>gl_deleteTexture\<close> says whether \<^verbatim>\<open>NATIVE.gl.deleteTexture\<close> exists, and
  \<^verbatim>\<open>Image_destroy\<close> whether a surface made by \<^verbatim>\<open>new Image()\<close> has a \<^verbatim>\<open>destroy\<close> method.
\<close>

datatype preload = PreNone | PreImage sid | PreURL string

text \<open>
  \<^verbatim>\<open>ImageCache\<close> is a plain object (line 37), so \<^verbatim>\<open>ImageCache[url]\<close> answers for the names the
  object inherits as well as for the inserted ones. A read finds nothing truthy (\<^verbatim>\<open>Miss\<close>),
  a surface (\<^verbatim>\<open>Entry\<close>), or a truthy value that is no surface (\<^verbatim>\<open>Alien\<close>: a method such as
  \<^verbatim>\<open>toString\<close> or the prototype object itself, which has neither \<^verbatim>\<open>__cb\<close> nor
  \<^verbatim>\<open>addEventListener\<close>). The parameter \<^verbatim>\<open>inherits\<close> is the platform's part: what a name that
  was not inserted reads as through the prototype of the cache, \<^verbatim>\<open>Object.prototype\<close> for the
  argument \<^verbatim>\<open>None\<close> and otherwise the surface that was made the prototype.
\<close>

datatype found = Miss | Alien | Entry sid

record env =
  Image_get :: "(string option \<Rightarrow> preload) option"
  updateImageMap :: "imagemap \<Rightarrow> string option \<Rightarrow> jsval \<Rightarrow> jsval \<Rightarrow> jsval \<Rightarrow> jsval \<Rightarrow> imagemap"
  gl_deleteTexture :: bool
  Image_destroy :: bool
  inherits :: "surface option \<Rightarrow> string \<Rightarrow> found"

text \<open>
  \<^verbatim>\<open>ImageCache[url]\<close>, read. The name \<^verbatim>\<open>__proto__\<close> reads as the prototype of the cache
  object; an inserted surface shadows what is inherited under its name.
\<close>

definition cache_get :: "env \<Rightarrow> world \<Rightarrow> string \<Rightarrow> found" where
  "cache_get e w u =
     (if u = ''__proto__'' then (case cache_proto w of Some g \<Rightarrow> Entry g | None \<Rightarrow> Alien)
      else
        (case ImageCache w u of
           Some g \<Rightarrow> Entry g
         | None \<Rightarrow>
             inherits e (case cache_proto w of None \<Rightarrow> None | Some g \<Rightarrow> surfaces w g) u))"

text \<open>
  \<^verbatim>\<open>ImageCache[url] = img\<close>, written: an entry of the cache, except under the name
  \<^verbatim>\<open>__proto__\<close>, where the assignment makes the surface the prototype of the cache object.
\<close>

definition cache_put :: "world \<Rightarrow> string \<Rightarrow> sid \<Rightarrow> world" where
  "cache_put w u img =
     (if u = ''__proto__'' then w\<lparr>cache_proto := Some img\<rparr>
      else w\<lparr>ImageCache := (ImageCache w)(u \<mapsto> img)\<rparr>)"

text \<open>What a call of this file throws.\<close>

datatype failure = TypeError

text \<open>\<^verbatim>\<open>new Image()\<close>: no size, no source, no callback yet.\<close>

definition new_Image :: "env \<Rightarrow> surface" where
  "new_Image e = \<lparr> s_width = Fin 0, s_height = Fin 0, s_src = Some [], s_canvas = False,
                   s_destroy = Image_destroy e, s_cb = None \<rparr>"

text \<open>Lines 110-124: the cache, then the preload lookup, each only while no image is at hand.\<close>

definition resolve_img ::
  "env \<Rightarrow> world \<Rightarrow> sid option \<Rightarrow> string option \<Rightarrow> bool \<Rightarrow> found \<times> string option" where
  "resolve_img e w img url forceReload =
     (let img1 = (case img of
                    Some g \<Rightarrow> Entry g
                  | None \<Rightarrow>
                      (case url of
                         Some u \<Rightarrow> if u \<noteq> [] \<and> \<not> forceReload then cache_get e w u else Miss
                       | None \<Rightarrow> Miss))
      in if img1 = Miss \<and> \<not> forceReload then
           (case Image_get e of
              None \<Rightarrow> (img1, url)
            | Some get \<Rightarrow>
                (case get url of
                   PreImage b64 \<Rightarrow> (Entry b64, url)
                 | PreURL b64 \<Rightarrow> if b64 \<noteq> [] then (img1, Some b64) else (img1, url)
                 | PreNone \<Rightarrow> (img1, url)))
         else (img1, url))"

text \<open>Lines 126-136: what a forced reload asks the native layer to drop.\<close>

definition force_events :: "env \<Rightarrow> world \<Rightarrow> sid option \<Rightarrow> string option \<Rightarrow> event list" where
  "force_events e w img url =
     (case img of
        None \<Rightarrow> []
      | Some g \<Rightarrow> (case surfaces w g of
                     None \<Rightarrow> []
                   | Some s \<Rightarrow> if s_destroy s then [Destroy g] else []))
     @ (case url of
          None \<Rightarrow> []
        | Some u \<Rightarrow> if u \<noteq> [] \<and> gl_deleteTexture e then [DeleteTexture u] else [])"

text \<open>
  Lines 153-165, for a surface without \<^verbatim>\<open>__cb\<close>: the callback is made, the listeners
  are attached, the surface is cached under the URL and, when it has no source yet, the URL
  is assigned to it and to the map (which starts the decode).
\<close>

definition attach_cb :: "world \<Rightarrow> iid \<Rightarrow> sid \<Rightarrow> string option \<Rightarrow> world" where
  "attach_cb w i img url =
     (case (surfaces w img, images w i) of
        (Some s, Some im) \<Rightarrow>
          let s1 = s\<lparr>s_cb := Some \<lparr> scb_fired = False, scb_err = None, scb_run = [] \<rparr>\<rparr>
          in (case url of
                None \<Rightarrow> w\<lparr>surfaces := (surfaces w)(img \<mapsto> s1)\<rparr>
              | Some u \<Rightarrow>
                  if u = [] then w\<lparr>surfaces := (surfaces w)(img \<mapsto> s1)\<rparr>
                  else if \<not> str_truthy (s_src s) then
                    (cache_put w u img)
                      \<lparr>surfaces := (surfaces w)(img \<mapsto> s1\<lparr>s_src := Some u\<rparr>),
                       images := (images w)(i \<mapsto> im\<lparr>i_map := (i_map im)\<lparr>murl := Some u\<rparr>\<rparr>),
                       trace := trace w @ [SetSrc img u]\<rparr>
                  else (cache_put w u img)\<lparr>surfaces := (surfaces w)(img \<mapsto> s1)\<rparr>)
      | _ \<Rightarrow> w)"

text \<open>Lines 126-170 of \<^verbatim>\<open>_setSrcImg\<close>, for a surface of the store or none.\<close>

definition install_img ::
  "env \<Rightarrow> world \<Rightarrow> iid \<Rightarrow> image \<Rightarrow> sid option \<Rightarrow> string option \<Rightarrow> bool \<Rightarrow> world" where
  "install_img e w i im img2 url forceReload =
     (let w1 = w\<lparr>trace := trace w @ (if forceReload then force_events e w img2 url else [])\<rparr>;
          (img, w2) = (case img2 of
                         Some g \<Rightarrow> (g, w1)
                       | None \<Rightarrow> (next_sid w1,
                                  w1\<lparr>surfaces := (surfaces w1)(next_sid w1 \<mapsto> new_Image e),
                                     next_sid := Suc (next_sid w1)\<rparr>));
          w3 = w2\<lparr>images := (images w2)(i \<mapsto> im\<lparr>i_cb := cb_reset (i_cb im), i_srcImg := Some img\<rparr>)\<rparr>
      in (case surfaces w3 img of
            None \<Rightarrow> w3
          | Some s \<Rightarrow>
              if s_canvas s then Image_onLoad w3 i False img
              else scb_subscribe (if s_cb s = None then attach_cb w3 i img url else w3) img i))"

text \<open>
  \<^verbatim>\<open>_setSrcImg\<close> (lines 107-171). Where the cache read gave a value that is no surface,
  the value becomes \<^verbatim>\<open>_srcImg\<close>, it is no canvas and has no \<^verbatim>\<open>__cb\<close>, one is assigned to it,
  and line 155 throws: \<^verbatim>\<open>img.addEventListener\<close> is not a function. The call ends there, and
  the model keeps no world for a call that threw.
\<close>

definition Image_setSrcImg ::
  "env \<Rightarrow> world \<Rightarrow> iid \<Rightarrow> sid option \<Rightarrow> string option \<Rightarrow> bool \<Rightarrow> failure + world" where
  "Image_setSrcImg e w i img0 url0 forceReload =
     (case images w i of
        None \<Rightarrow> Inr w
      | Some im \<Rightarrow>
          (case resolve_img e w img0 url0 forceReload of
             (Alien, url) \<Rightarrow> Inl TypeError
           | (Miss, url) \<Rightarrow> Inr (install_img e w i im None url forceReload)
           | (Entry g, url) \<Rightarrow> Inr (install_img e w i im (Some g) url forceReload)))"

text \<open>
  The constructor (lines 89-105). The new instance gets the reference \<^verbatim>\<open>next_iid w\<close>.
  It throws what \<^verbatim>\<open>_setSrcImg\<close> throws.
  A missing \<^verbatim>\<open>opts\<close> is the record with every option undefined.
\<close>

record opts =
  o_url :: "string option"
  o_scale :: jsval
  o_sourceX :: jsval
  o_sourceY :: jsval
  o_sourceW :: jsval
  o_sourceH :: jsval
  o_srcImage :: "sid option"
  o_forceReload :: bool

definition url_or_empty :: "string option \<Rightarrow> string" where
  "url_or_empty u = (case u of None \<Rightarrow> [] | Some v \<Rightarrow> v)"

text \<open>Lines 94-100: the fields of the new instance before a surface is chosen.\<close>

definition init_fields :: "env \<Rightarrow> opts \<Rightarrow> image" where
  "init_fields e opts =
     \<lparr> i_cb = cb_new,
       i_map = updateImageMap e
                 (ImageMap_init (Fin 0) (Fin 0) (Fin (- 1)) (Fin (- 1)) (Fin 0) (Fin 0) (Fin 0) (Fin 0)
                    (Some (url_or_empty (o_url opts))))
                 (o_url opts) (o_sourceX opts) (o_sourceY opts) (o_sourceW opts) (o_sourceH opts),
       i_originalURL = url_or_empty (o_url opts),
       i_scale = js_or (o_scale opts) (Fin 1), i_isError = False, i_srcImg = None \<rparr>"

definition Image_init :: "env \<Rightarrow> world \<Rightarrow> opts \<Rightarrow> failure + world" where
  "Image_init e w opts =
     (let im = init_fields e opts; i = next_iid w
      in Image_setSrcImg e (w\<lparr>images := (images w)(i \<mapsto> im), next_iid := Suc i\<rparr>) i
           (o_srcImage opts) (murl (i_map im)) (o_forceReload opts))"

text \<open>\<^verbatim>\<open>setSource\<close>/\<^verbatim>\<open>setSrcImg\<close> (lines 177-179) and \<^verbatim>\<open>setURL\<close> (lines 272-275).\<close>

definition setSource :: "env \<Rightarrow> world \<Rightarrow> iid \<Rightarrow> sid option \<Rightarrow> failure + world" where
  "setSource e w i srcImg = Image_setSrcImg e w i srcImg None False"

definition setURL :: "env \<Rightarrow> world \<Rightarrow> iid \<Rightarrow> string option \<Rightarrow> bool \<Rightarrow> failure + world" where
  "setURL e w i url forceReload =
     (case images w i of
        None \<Rightarrow> Inr w
      | Some im \<Rightarrow>
          let m = updateImageMap e (i_map im) url Undef Undef Undef Undef
          in Image_setSrcImg e (w\<lparr>images := (images w)(i \<mapsto> im\<lparr>i_map := m\<rparr>)\<rparr>) i None (murl m) forceReload)"

text \<open>\<^verbatim>\<open>exports.__clearCache__\<close> (lines 542-544).\<close>

definition clearCache :: "world \<Rightarrow> world" where
  "clearCache w = w\<lparr>ImageCache := (\<lambda>u. None), cache_proto := None\<rparr>"

text \<open>\<^verbatim>\<open>setImageData\<close> (line 534) has an empty body.\<close>

definition setImageData :: "world \<Rightarrow> iid \<Rightarrow> 'a \<Rightarrow> world" where
  "setImageData w i data = w"

text \<open>The world before anything is constructed.\<close>

definition world0 :: world where
  "world0 = \<lparr> surfaces = (\<lambda>g. None), next_sid = 0, images = (\<lambda>i. None), next_iid = 0,
              ImageCache = (\<lambda>u. None), cache_proto = None, timers = [], trace = [] \<rparr>"

text \<open>The world a call returned; the empty world stands in where it threw.\<close>

definition returned :: "failure + world \<Rightarrow> world" where
  "returned r = (case r of Inr w \<Rightarrow> w | Inl thrown \<Rightarrow> world0)"

section \<open>Accessors and mutators of one Image\<close>

text \<open>
  These methods touch \<^verbatim>\<open>this\<close> only. A mutator returns the updated instance and the
  names of the events it publishes with \<^verbatim>\<open>this.emit\<close>.
\<close>

definition isError :: "image \<Rightarrow> bool" where
  "isError im = i_isError im"

definition isReady :: "image \<Rightarrow> bool" where
  "isReady im = (\<not> i_isError im \<and> n_fired (i_cb im))"

definition getSourceX :: "image \<Rightarrow> jsval" where
  "getSourceX im = mx (i_map im)"

definition getSourceY :: "image \<Rightarrow> jsval" where
  "getSourceY im = my (i_map im)"

definition getSourceW :: "image \<Rightarrow> jsval" where
  "getSourceW im = mwidth (i_map im)"

definition getSourceH :: "image \<Rightarrow> jsval" where
  "getSourceH im = mheight (i_map im)"

text \<open>
  \<^verbatim>\<open>getWidth\<close> and \<^verbatim>\<open>getHeight\<close> (lines 277-287). The first compares with \<^verbatim>\<open>==\<close>, the
  second with \<^verbatim>\<open>===\<close>; on a number or \<^verbatim>\<open>undefined\<close> against \<^verbatim>\<open>-1\<close> the two agree.
\<close>

definition getWidth :: "image \<Rightarrow> jsval" where
  "getWidth im =
     (let m = i_map im
      in js_div (if strict_eq (mwidth m) (Fin (- 1)) then Fin 0
                 else js_add (js_add (mwidth m) (marginLeft m)) (marginRight m))
                (mscale m))"

definition getHeight :: "image \<Rightarrow> jsval" where
  "getHeight im =
     (let m = i_map im
      in js_div (if strict_eq (mheight m) (Fin (- 1)) then Fin 0
                 else js_add (js_add (mheight m) (marginTop m)) (marginBottom m))
                (mscale m))"

definition setSourceX :: "image \<Rightarrow> jsval \<Rightarrow> image \<times> string list" where
  "setSourceX im v = (im\<lparr>i_map := (i_map im)\<lparr>mx := v\<rparr>\<rparr>, [])"

definition setSourceY :: "image \<Rightarrow> jsval \<Rightarrow> image \<times> string list" where
  "setSourceY im v = (im\<lparr>i_map := (i_map im)\<lparr>my := v\<rparr>\<rparr>, [])"

definition setSourceW :: "image \<Rightarrow> jsval \<Rightarrow> image \<times> string list" where
  "setSourceW im v = (im\<lparr>i_map := (i_map im)\<lparr>mwidth := v\<rparr>\<rparr>, [])"

definition setSourceH :: "image \<Rightarrow> jsval \<Rightarrow> image \<times> string list" where
  "setSourceH im v = (im\<lparr>i_map := (i_map im)\<lparr>mheight := v\<rparr>\<rparr>, [])"

definition setMarginTop :: "image \<Rightarrow> jsval \<Rightarrow> image \<times> string list" where
  "setMarginTop im n = (im\<lparr>i_map := (i_map im)\<lparr>marginTop := n\<rparr>\<rparr>, [])"

definition setMarginRight :: "image \<Rightarrow> jsval \<Rightarrow> image \<times> string list" where
  "setMarginRight im n = (im\<lparr>i_map := (i_map im)\<lparr>marginRight := n\<rparr>\<rparr>, [])"

definition setMarginBottom :: "image \<Rightarrow> jsval \<Rightarrow> image \<times> string list" where
  "setMarginBottom im n = (im\<lparr>i_map := (i_map im)\<lparr>marginBottom := n\<rparr>\<rparr>, [])"

definition setMarginLeft :: "image \<Rightarrow> jsval \<Rightarrow> image \<times> string list" where
  "setMarginLeft im n = (im\<lparr>i_map := (i_map im)\<lparr>marginLeft := n\<rparr>\<rparr>, [])"

text \<open>\<^verbatim>\<open>setMap\<close>/\<^verbatim>\<open>setBounds\<close> (lines 293-304).\<close>

definition setBounds ::
  "image \<Rightarrow> jsval \<Rightarrow> jsval \<Rightarrow> jsval \<Rightarrow> jsval \<Rightarrow> jsval \<Rightarrow> jsval \<Rightarrow> jsval \<Rightarrow> jsval \<Rightarrow> image \<times> string list" where
  "setBounds im x y w h mTop mRight mBottom mLeft =
     (im\<lparr>i_map := (i_map im)\<lparr>mx := x, my := y, mwidth := w, mheight := h,
                             marginTop := js_or mTop (Fin 0), marginRight := js_or mRight (Fin 0),
                             marginBottom := js_or mBottom (Fin 0), marginLeft := js_or mLeft (Fin 0)\<rparr>\<rparr>,
      [''changeBounds''])"


section \<open>Drawing\<close>

text \<open>
  Drawing changes no Image; it issues calls to drawing contexts and to the two scratch
  canvases of the module (\<^verbatim>\<open>_filterCanvas\<close>, \<^verbatim>\<open>_imgDataCanvas\<close>, allocated on first use).
  The model threads the scratch allocation flags and the list of calls issued so far.
\<close>

record color =
  c_r :: jsval
  c_g :: jsval
  c_b :: jsval
  c_a :: jsval

datatype canvas = FilterCanvas | ImgDataCanvas

datatype target = UserCtx nat | FilterCtx | ImgDataCtx

text \<open>What \<^verbatim>\<open>drawImage\<close> reads from: the image's \<^verbatim>\<open>_srcImg\<close> or the filter canvas.\<close>

datatype source = Surf "sid option" | Scratch

record imgdata =
  d_data :: "nat list"
  d_width :: jsval
  d_height :: jsval

datatype gfx =
    NewCanvas canvas
  | SetWidth canvas jsval
  | SetHeight canvas jsval
  | SetComposite target string
  | SetFillStyle target color
  | FillRect target jsval jsval jsval jsval
  | DrawImage target source jsval jsval jsval jsval jsval jsval jsval jsval
  | Clear target
  | GetImageData target jsval jsval jsval jsval
  | PutImageData target imgdata jsval jsval

record gstate =
  g_filterCanvas :: bool
  g_imgDataCanvas :: bool
  g_ops :: "gfx list"

definition issue :: "gstate \<Rightarrow> gfx list \<Rightarrow> gstate" where
  "issue gs ops = gs\<lparr>g_ops := g_ops gs @ ops\<rparr>"

text \<open>
  The platform: \<^verbatim>\<open>isNative\<close> is \<^verbatim>\<open>GLOBAL.NATIVE && !device.isNativeSimulator\<close>,
  \<^verbatim>\<open>hasDocument\<close> is \<^verbatim>\<open>GLOBAL.document && document.createElement\<close>, and \<^verbatim>\<open>readPixels\<close> is
  what \<^verbatim>\<open>_imgDataCtx.getImageData(0, 0, width, height)\<close> returns after the calls issued so far.
\<close>

record platform =
  isNative :: bool
  hasDocument :: bool
  readPixels :: "gfx list \<Rightarrow> jsval \<Rightarrow> jsval \<Rightarrow> imgdata"

text \<open>
  The filter descriptors of a context: \<^verbatim>\<open>LinearAdd\<close>, \<^verbatim>\<open>Tint\<close> and \<^verbatim>\<open>Multiply\<close> answer
  \<^verbatim>\<open>get()\<close> with a colour, the two masks answer \<^verbatim>\<open>getMask()\<close> with an Image (read only
  here, so held by value).
\<close>

record filters =
  LinearAdd :: "color option"
  Tint :: "color option"
  Multiply :: "color option"
  NegativeMask :: "image option"
  PositiveMask :: "image option"

record ctx =
  c_target :: target
  c_filters :: "filters option"

text \<open>\<^verbatim>\<open>arguments[k]\<close> for \<^verbatim>\<open>k >= 1\<close>, the list holding the arguments after \<^verbatim>\<open>ctx\<close>.\<close>

definition arg :: "jsval list \<Rightarrow> nat \<Rightarrow> jsval" where
  "arg args k = (if 0 < k \<and> k \<le> length args then args ! (k - 1) else Undef)"

text \<open>\<^verbatim>\<open>argsN !== void 0 ? argsN : argsM || 0\<close>.\<close>

definition dest_arg :: "jsval \<Rightarrow> jsval \<Rightarrow> jsval" where
  "dest_arg aN aM = (if aN \<noteq> Undef then aN else js_or aM (Fin 0))"

text \<open>
  Lines 460-492 of \<^verbatim>\<open>render\<close>: the source and destination rectangles
  \<^verbatim>\<open>(srcX, srcY, srcW, srcH, destX, destY, destW, destH)\<close>. \<^verbatim>\<open>arguments.length\<close> counts \<^verbatim>\<open>ctx\<close>.
\<close>

definition rects ::
  "image \<Rightarrow> jsval list \<Rightarrow> jsval \<times> jsval \<times> jsval \<times> jsval \<times> jsval \<times> jsval \<times> jsval \<times> jsval" where
  "rects im args =
     (let m = i_map im;
          destX = dest_arg (arg args 5) (arg args 1);
          destY = dest_arg (arg args 6) (arg args 2);
          destW = dest_arg (arg args 7) (arg args 3);
          destH = dest_arg (arg args 8) (arg args 4)
      in if Suc (length args) < 9 then
           let scaleX = js_div destW (js_add (js_add (marginLeft m) (mwidth m)) (marginRight m));
               scaleY = js_div destH (js_add (js_add (marginTop m) (mheight m)) (marginBottom m))
           in (mx m, my m, mwidth m, mheight m,
               js_add destX (js_mul scaleX (marginLeft m)),
               js_add destY (js_mul scaleY (marginTop m)),
               js_mul scaleX (mwidth m),
               js_mul scaleY (mheight m))
         else (arg args 1, arg args 2, arg args 3, arg args 4, destX, destY, destW, destH))"

text \<open>\<^verbatim>\<open>_renderImage\<close> (lines 505-509): the blit is issued; what it throws is swallowed.\<close>

definition Image_renderImage ::
  "gstate \<Rightarrow> target \<Rightarrow> source \<Rightarrow> jsval \<Rightarrow> jsval \<Rightarrow> jsval \<Rightarrow> jsval \<Rightarrow> jsval \<Rightarrow> jsval \<Rightarrow> jsval \<Rightarrow> jsval \<Rightarrow> gstate" where
  "Image_renderImage gs t srcImg srcX srcY srcW srcH destX destY destW destH =
     issue gs [DrawImage t srcImg srcX srcY srcW srcH destX destY destW destH]"

text \<open>
  \<^verbatim>\<open>render\<close> on a context that carries no filters, as the scratch contexts are: the
  filter branch of lines 494-500 is not taken.
\<close>

definition render_plain :: "gstate \<Rightarrow> image \<Rightarrow> target \<Rightarrow> jsval list \<Rightarrow> gstate" where
  "render_plain gs im t args =
     (if \<not> n_fired (i_cb im) then gs
      else
        (case rects im args of
           (srcX, srcY, srcW, srcH, destX, destY, destW, destH) \<Rightarrow>
             Image_renderImage gs t (Surf (i_srcImg im)) srcX srcY srcW srcH destX destY destW destH))"

text \<open>\<^verbatim>\<open>getImageData\<close> (lines 511-532). A thrown string is the left summand.\<close>

definition getImageData ::
  "platform \<Rightarrow> gstate \<Rightarrow> image \<Rightarrow> jsval \<Rightarrow> jsval \<Rightarrow> jsval \<Rightarrow> jsval \<Rightarrow> gstate \<times> (string + imgdata)" where
  "getImageData p gs im x y width height =
     (let gs1 = (if \<not> g_imgDataCanvas gs
                 then issue (gs\<lparr>g_imgDataCanvas := True\<rparr>) [NewCanvas ImgDataCanvas] else gs);
          m = i_map im
      in if \<not> hasDocument p then (gs1, Inl ''Not supported'')
         else if \<not> truthy (mwidth m) \<or> \<not> truthy (mheight m) then (gs1, Inl ''Not loaded'')
         else
           let x1 = js_or x (Fin 0);
               y1 = js_or y (Fin 0);
               width1 = js_or width (mwidth m);
               height1 = js_or height (mheight m);
               gs2 = issue gs1 [SetWidth ImgDataCanvas width1, SetHeight ImgDataCanvas height1,
                                Clear ImgDataCtx];
               gs3 = render_plain gs2 im ImgDataCtx
                       [x1, y1, width1, height1, Fin 0, Fin 0, width1, height1];
               gs4 = issue gs3 [GetImageData ImgDataCtx (Fin 0) (Fin 0) width1 height1]
           in (gs4, Inr (readPixels p (g_ops gs3) width1 height1)))"

text \<open>\<^verbatim>\<open>_renderFilter\<close> (lines 373-387).\<close>

definition Image_renderFilter ::
  "gstate \<Rightarrow> image \<Rightarrow> jsval \<Rightarrow> jsval \<Rightarrow> jsval \<Rightarrow> jsval \<Rightarrow> color \<Rightarrow> string \<Rightarrow> gstate \<times> (string + source)" where
  "Image_renderFilter gs im srcX srcY srcW srcH color op =
     (let gs1 = issue gs [SetWidth FilterCanvas srcW, SetHeight FilterCanvas srcH,
                          SetComposite FilterCtx ''source-over''];
          gs2 = render_plain gs1 im FilterCtx [srcX, srcY, srcW, srcH, Fin 0, Fin 0, srcW, srcH];
          gs3 = issue gs2 [SetComposite FilterCtx op, SetFillStyle FilterCtx color,
                           FillRect FilterCtx (Fin 0) (Fin 0) srcW srcH,
                           SetComposite FilterCtx ''destination-in''];
          gs4 = render_plain gs3 im FilterCtx [srcX, srcY, srcW, srcH, Fin 0, Fin 0, srcW, srcH]
      in (gs4, Inr Scratch))"

text \<open>
  \<^verbatim>\<open>_renderMultiply\<close> (lines 389-408). The pixel array is a \<^verbatim>\<open>Uint8ClampedArray\<close>: a store
  rounds to the nearest integer, ties to even, and clamps to 0..255.
\<close>

definition js_sub :: "jsval \<Rightarrow> jsval \<Rightarrow> jsval" where
  "js_sub a b = js_add a (js_mul (Fin (- 1)) b)"

definition to_uint8_clamped :: "jsval \<Rightarrow> nat" where
  "to_uint8_clamped v =
     (case to_number v of
        Fin r \<Rightarrow>
          if r \<le> 0 then 0
          else if 255 \<le> r then 255
          else
            let f = floor r; d = r - of_int f
            in nat (if d < 1 / 2 then f else if 1 / 2 < d then f + 1
                    else if even f then f else f + 1)
      | PInf \<Rightarrow> 255
      | _ \<Rightarrow> 0)"

definition scale_byte :: "nat \<Rightarrow> jsval \<Rightarrow> nat" where
  "scale_byte d k = to_uint8_clamped (js_mul (Fin (of_nat d)) k)"

fun multiply_data :: "jsval \<Rightarrow> jsval \<Rightarrow> jsval \<Rightarrow> nat list \<Rightarrow> nat list" where
  "multiply_data mr mg mb (r # g # b # a # rest) =
     scale_byte r mr # scale_byte g mg # scale_byte b mb # a # multiply_data mr mg mb rest"
| "multiply_data mr mg mb [r, g, b] = [scale_byte r mr, scale_byte g mg, scale_byte b mb]"
| "multiply_data mr mg mb [r, g] = [scale_byte r mr, scale_byte g mg]"
| "multiply_data mr mg mb [r] = [scale_byte r mr]"
| "multiply_data mr mg mb [] = []"

definition Image_renderMultiply ::
  "platform \<Rightarrow> gstate \<Rightarrow> image \<Rightarrow> jsval \<Rightarrow> jsval \<Rightarrow> jsval \<Rightarrow> jsval \<Rightarrow> color \<Rightarrow> gstate \<times> (string + source)" where
  "Image_renderMultiply p gs im srcX srcY srcW srcH color =
     (case getImageData p gs im srcX srcY srcW srcH of
        (gs1, Inl thrown) \<Rightarrow> (gs1, Inl thrown)
      | (gs1, Inr imgData) \<Rightarrow>
          let a = c_a color;
              mr = js_add (Fin 1) (js_mul a (js_sub (js_div (c_r color) (Fin 255)) (Fin 1)));
              mg = js_add (Fin 1) (js_mul a (js_sub (js_div (c_g color) (Fin 255)) (Fin 1)));
              mb = js_add (Fin 1) (js_mul a (js_sub (js_div (c_b color) (Fin 255)) (Fin 1)));
              imgData1 = imgData\<lparr>d_data := multiply_data mr mg mb (d_data imgData)\<rparr>
          in (issue gs1 [SetWidth FilterCanvas (d_width imgData1),
                         SetHeight FilterCanvas (d_height imgData1),
                         PutImageData FilterCtx imgData1 (Fin 0) (Fin 0)],
              Inr Scratch))"

text \<open>\<^verbatim>\<open>_renderMask\<close> (lines 410-424).\<close>

definition Image_renderMask ::
  "gstate \<Rightarrow> image \<Rightarrow> jsval \<Rightarrow> jsval \<Rightarrow> jsval \<Rightarrow> jsval \<Rightarrow> image \<Rightarrow> string \<Rightarrow> gstate \<times> (string + source)" where
  "Image_renderMask gs im srcX srcY srcW srcH maskImg op =
     (let gs1 = issue gs [SetWidth FilterCanvas srcW, SetHeight FilterCanvas srcH,
                          SetComposite FilterCtx ''source-over''];
          gs2 = render_plain gs1 maskImg FilterCtx
                  [getSourceX maskImg, getSourceY maskImg, getSourceW maskImg, getSourceH maskImg,
                   Fin 0, Fin 0, srcW, srcH];
          gs3 = issue gs2 [SetComposite FilterCtx op];
          gs4 = render_plain gs3 im FilterCtx [srcX, srcY, srcW, srcH, Fin 0, Fin 0, srcW, srcH]
      in (gs4, Inr Scratch))"

text \<open>\<^verbatim>\<open>_applyFilters\<close> (lines 426-453).\<close>

definition Image_applyFilters ::
  "platform \<Rightarrow> gstate \<Rightarrow> image \<Rightarrow> filters \<Rightarrow> jsval \<Rightarrow> jsval \<Rightarrow> jsval \<Rightarrow> jsval \<Rightarrow> gstate \<times> (string + source)" where
  "Image_applyFilters p gs im fs srcX srcY srcW srcH =
     (let gs1 = (if \<not> g_filterCanvas gs
                 then issue (gs\<lparr>g_filterCanvas := True\<rparr>) [NewCanvas FilterCanvas] else gs)
      in case LinearAdd fs of
           Some linearAdd \<Rightarrow> Image_renderFilter gs1 im srcX srcY srcW srcH linearAdd ''lighter''
         | None \<Rightarrow>
        (case Tint fs of
           Some tint \<Rightarrow> Image_renderFilter gs1 im srcX srcY srcW srcH tint ''source-over''
         | None \<Rightarrow>
        (case Multiply fs of
           Some mult \<Rightarrow> Image_renderMultiply p gs1 im srcX srcY srcW srcH mult
         | None \<Rightarrow>
        (case NegativeMask fs of
           Some negMask \<Rightarrow> Image_renderMask gs1 im srcX srcY srcW srcH negMask ''source-in''
         | None \<Rightarrow>
        (case PositiveMask fs of
           Some posMask \<Rightarrow> Image_renderMask gs1 im srcX srcY srcW srcH posMask ''source-out''
         | None \<Rightarrow> (gs1, Inr (Surf (i_srcImg im))))))))"

text \<open>\<^verbatim>\<open>render\<close> (lines 455-503).\<close>

definition render :: "platform \<Rightarrow> gstate \<Rightarrow> image \<Rightarrow> ctx \<Rightarrow> jsval list \<Rightarrow> gstate \<times> (string + unit)" where
  "render p gs im c args =
     (if \<not> n_fired (i_cb im) then (gs, Inr ())
      else
        (case rects im args of
           (srcX, srcY, srcW, srcH, destX, destY, destW, destH) \<Rightarrow>
             (case (if isNative p then None else c_filters c) of
                None \<Rightarrow>
                  (Image_renderImage gs (c_target c) (Surf (i_srcImg im))
                     srcX srcY srcW srcH destX destY destW destH, Inr ())
              | Some fs \<Rightarrow>
                  (case Image_applyFilters p gs im fs srcX srcY srcW srcH of
                     (gs1, Inl thrown) \<Rightarrow> (gs1, Inl thrown)
                   | (gs1, Inr srcImg) \<Rightarrow>
                       if srcImg \<noteq> Surf (i_srcImg im)
                       then (Image_renderImage gs1 (c_target c) srcImg
                               (Fin 0) (Fin 0) srcW srcH destX destY destW destH, Inr ())
                       else (Image_renderImage gs1 (c_target c) srcImg
                               srcX srcY srcW srcH destX destY destW destH, Inr ())))))"


section \<open>The filter precedence, as specified\<close>

text \<open>
  The specification honours exactly one descriptor per draw call, the first one present
  in the order additive tint, solid tint, multiply, negative mask, positive mask. These
  definitions follow that sentence; \<^verbatim>\<open>apply_routine\<close> runs the one routine of a descriptor
  and looks at no other descriptor.
\<close>

datatype routine = AdditiveTint | SolidTint | MultiplyTint | NegativeMasking | PositiveMasking

definition filter_precedence :: "routine list" where
  "filter_precedence = [AdditiveTint, SolidTint, MultiplyTint, NegativeMasking, PositiveMasking]"

fun descriptor_present :: "filters \<Rightarrow> routine \<Rightarrow> bool" where
  "descriptor_present fs AdditiveTint = (LinearAdd fs \<noteq> None)"
| "descriptor_present fs SolidTint = (Tint fs \<noteq> None)"
| "descriptor_present fs MultiplyTint = (Multiply fs \<noteq> None)"
| "descriptor_present fs NegativeMasking = (NegativeMask fs \<noteq> None)"
| "descriptor_present fs PositiveMasking = (PositiveMask fs \<noteq> None)"

definition honoured_filter :: "filters \<Rightarrow> routine option" where
  "honoured_filter fs = find (descriptor_present fs) filter_precedence"




section \<open>Example inputs\<close>

text \<open>
  A resource loader without atlas: it copies the URL and the requested rectangle into
  the map, unresolved where no size is given, at scale 1.
\<close>

definition ex_loader ::
  "imagemap \<Rightarrow> string option \<Rightarrow> jsval \<Rightarrow> jsval \<Rightarrow> jsval \<Rightarrow> jsval \<Rightarrow> imagemap" where
  "ex_loader m url x y w h =
     m\<lparr>murl := url, mx := js_or x (Fin 0), my := js_or y (Fin 0),
       mwidth := (if w = Undef then Fin (- 1) else w),
       mheight := (if h = Undef then Fin (- 1) else h), mscale := Fin 1\<rparr>"

text \<open>
  What a plain object inherits from \<^verbatim>\<open>Object.prototype\<close>, each a method. The examples never
  replace the prototype of the cache.
\<close>

definition Object_prototype_names :: "string list" where
  "Object_prototype_names =
     [''constructor'', ''toString'', ''toLocaleString'', ''valueOf'', ''hasOwnProperty'',
      ''isPrototypeOf'', ''propertyIsEnumerable'', ''__defineGetter__'', ''__defineSetter__'',
      ''__lookupGetter__'', ''__lookupSetter__'']"

definition ex_inherits :: "surface option \<Rightarrow> string \<Rightarrow> found" where
  "ex_inherits p u = (if u \<in> set Object_prototype_names then Alien else Miss)"

text \<open>A browser: no preload lookup, no native layer.\<close>

definition ex_env :: env where
  "ex_env = \<lparr> Image_get = None, updateImageMap = ex_loader, gl_deleteTexture = False,
              Image_destroy = False, inherits = ex_inherits \<rparr>"


text \<open>A browser whose resource loader leaves the region map as the constructor made it.\<close>

definition ex_env_bare :: env where
  "ex_env_bare = \<lparr> Image_get = None, updateImageMap = (\<lambda>m url x y w h. m),
                   gl_deleteTexture = False, Image_destroy = False, inherits = ex_inherits \<rparr>"

definition ex_opts :: opts where
  "ex_opts = \<lparr> o_url = Some ''a.png'', o_scale = Undef, o_sourceX = Undef, o_sourceY = Undef,
               o_sourceW = Undef, o_sourceH = Undef, o_srcImage = None, o_forceReload = False \<rparr>"

definition ex_opts_scaled :: opts where
  "ex_opts_scaled = ex_opts\<lparr>o_scale := Fin 2, o_sourceH := Fin 50\<rparr>"

definition ex_platform :: platform where
  "ex_platform = \<lparr> isNative = False, hasDocument = True,
                   readPixels = (\<lambda>ops w h. \<lparr> d_data = [], d_width = w, d_height = h \<rparr>) \<rparr>"

definition gs0 :: gstate where
  "gs0 = \<lparr> g_filterCanvas = False, g_imgDataCanvas = False, g_ops = [] \<rparr>"

text \<open>One Image constructed for \<^verbatim>\<open>a.png\<close>, its load pending.\<close>

definition ex_world :: world where
  "ex_world = returned (Image_init ex_env world0 ex_opts)"

definition ex_pending :: image where
  "ex_pending =
     \<lparr> i_cb = \<lparr> n_fired = False, n_args = None \<rparr>,
       i_map = \<lparr> murl = Some ''a.png'', mx = Fin 0, my = Fin 0, mwidth = Fin (- 1),
                 mheight = Fin (- 1), marginTop = Fin 0, marginRight = Fin 0, marginBottom = Fin 0,
                 marginLeft = Fin 0, mscale = Fin 1 \<rparr>,
       i_originalURL = ''a.png'', i_scale = Fin 1, i_isError = False, i_srcImg = Some 0 \<rparr>"




text \<open>The Image constructed for \<^verbatim>\<open>a.png\<close> where the loader leaves the map alone.\<close>

definition ex_bare_world :: world where
  "ex_bare_world = returned (Image_init ex_env_bare world0 ex_opts)"

definition ex_bare :: image where
  "ex_bare =
     \<lparr> i_cb = \<lparr> n_fired = False, n_args = None \<rparr>,
       i_map = \<lparr> murl = Some ''a.png'', mx = Fin 0, my = Fin 0, mwidth = Fin (- 1),
                 mheight = Fin (- 1), marginTop = Fin 0, marginRight = Fin 0, marginBottom = Fin 0,
                 marginLeft = Fin 0, mscale = Undef \<rparr>,
       i_originalURL = ''a.png'', i_scale = Fin 1, i_isError = False, i_srcImg = Some 0 \<rparr>"

text \<open>The same Image after an \<^verbatim>\<open>error\<close> event of its surface.\<close>

definition ex_errored :: image where
  "ex_errored = ex_pending\<lparr>i_cb := \<lparr> n_fired = True, n_args = Some NoImage \<rparr>, i_isError := True\<rparr>"

text \<open>The same Image after a \<^verbatim>\<open>load\<close> event of its surface whose width is still zero.\<close>

definition ex_zero_width :: image where
  "ex_zero_width =
     ex_pending\<lparr>i_cb := \<lparr> n_fired = True, n_args = Some Ready \<rparr>,
                i_map := (i_map ex_pending)\<lparr>mwidth := Fin 0, mheight := Fin 0\<rparr>\<rparr>"

text \<open>The Image after \<^verbatim>\<open>setURL('b.png')\<close> while \<^verbatim>\<open>a.png\<close> was pending; \<^verbatim>\<open>a.png\<close> then decodes.\<close>

definition ex_superseded :: world where
  "ex_superseded =
     dom_decoded (returned (setURL ex_env ex_world 0 (Some ''b.png'') False)) 0 (Fin 64) (Fin 64)"

definition ex_second :: image where
  "ex_second = ex_pending\<lparr>i_map := (i_map ex_pending)\<lparr>murl := Some ''b.png''\<rparr>, i_srcImg := Some 1\<rparr>"

text \<open>
  Two Images of \<^verbatim>\<open>a.png\<close> sharing the cached surface, the first one at scale 2 with a
  requested height of 50; the surface has decoded to 200 by 100.
\<close>

definition ex_shared :: world where
  "ex_shared =
     dom_decoded
       (returned (Image_init ex_env (returned (Image_init ex_env world0 ex_opts_scaled)) ex_opts)) 0
       (Fin 200) (Fin 100)"

definition ex_scaled :: image where
  "ex_scaled = ex_pending\<lparr>i_map := (i_map ex_pending)\<lparr>mheight := Fin 50\<rparr>, i_scale := Fin 2\<rparr>"

definition ex_surface :: surface where
  "ex_surface = \<lparr> s_width = Fin 200, s_height = Fin 100, s_src = Some ''a.png'', s_canvas = False,
                  s_destroy = False,
                  s_cb = Some \<lparr> scb_fired = False, scb_err = None, scb_run = [0, 1] \<rparr> \<rparr>"

text \<open>A loaded Image of 80 by 40 pixels with margins of 10 on the left and on the right.\<close>

definition ex_image :: image where
  "ex_image =
     \<lparr> i_cb = \<lparr> n_fired = True, n_args = Some Ready \<rparr>,
       i_map = \<lparr> murl = Some ''a.png'', mx = Fin 0, my = Fin 0, mwidth = Fin 80, mheight = Fin 40,
                 marginTop = Fin 0, marginRight = Fin 10, marginBottom = Fin 0, marginLeft = Fin 10,
                 mscale = Fin 2 \<rparr>,
       i_originalURL = ''a.png'', i_scale = Fin 2, i_isError = False, i_srcImg = Some 0 \<rparr>"

definition ex_ctx :: ctx where
  "ex_ctx = \<lparr> c_target = UserCtx 0, c_filters = None \<rparr>"

text \<open>A context carrying an additive tint and a solid tint at once.\<close>

definition ex_red :: color where
  "ex_red = \<lparr> c_r = Fin 255, c_g = Fin 0, c_b = Fin 0, c_a = Fin 1 \<rparr>"

definition ex_blue :: color where
  "ex_blue = \<lparr> c_r = Fin 0, c_g = Fin 0, c_b = Fin 255, c_a = Fin 1 \<rparr>"

definition ex_filters :: filters where
  "ex_filters = \<lparr> LinearAdd = Some ex_red, Tint = Some ex_blue, Multiply = None,
                  NegativeMask = None, PositiveMask = None \<rparr>"

definition ex_filter_ctx :: ctx where
  "ex_filter_ctx = \<lparr> c_target = UserCtx 0, c_filters = Some ex_filters \<rparr>"

section \<open>Properties\<close>

subsection \<open>Auxiliary facts\<close>

lemma strict_eq_Fin [simp]: "strict_eq v (Fin r) = (v = Fin r)"
  by (auto simp: strict_eq_def)

lemma div_zero_truthy: "truthy s \<Longrightarrow> js_div (Fin 0) s = Fin 0"
  by (cases s) (auto simp: js_div_def)

lemma div_zero_falsy: "\<not> truthy s \<Longrightarrow> js_div (Fin 0) s = NaN"
  by (cases s) (auto simp: js_div_def)

text \<open>With finite fields and a nonzero scale, the logical width is the rational quotient.\<close>

lemma getWidth_finite:
  assumes "mwidth (i_map im) = Fin w" and "marginLeft (i_map im) = Fin l"
    and "marginRight (i_map im) = Fin r" and "mscale (i_map im) = Fin s" and "s \<noteq> 0"
  shows "getWidth im = Fin (if w = - 1 then 0 else (w + l + r) / s)"
  using assms by (simp add: getWidth_def Let_def js_div_def js_add_def)

lemma getHeight_finite:
  assumes "mheight (i_map im) = Fin h" and "marginTop (i_map im) = Fin t"
    and "marginBottom (i_map im) = Fin b" and "mscale (i_map im) = Fin s" and "s \<noteq> 0"
  shows "getHeight im = Fin (if h = - 1 then 0 else (h + t + b) / s)"
  using assms by (simp add: getHeight_def Let_def js_div_def js_add_def)

text \<open>A handler of another Image, or of this one for a surface it has left, changes nothing here.\<close>

lemma onLoad_other_image:
  assumes "images w i = Some im" and "i_srcImg im \<noteq> Some g"
  shows "images (Image_onLoad w j err g) i = Some im"
proof (cases "j = i")
  case True
  then show ?thesis using assms by (auto simp: Image_onLoad_def)
next
  case False
  then show ?thesis using assms
    by (auto simp: Image_onLoad_def Let_def split: option.splits prod.splits)
qed

lemma foldl_onLoad_other_image:
  assumes "images w i = Some im" and "i_srcImg im \<noteq> Some g"
  shows "images (foldl (\<lambda>w' j. Image_onLoad w' j err g) w js) i = Some im"
  using assms
proof (induction js arbitrary: w)
  case Nil
  then show ?case by simp
next
  case (Cons j js)
  then show ?case by (simp add: onLoad_other_image)
qed

lemma scb_fire_other_image:
  assumes "images w i = Some im" and "i_srcImg im \<noteq> Some g"
  shows "images (scb_fire w g err) i = Some im"
  using assms
  by (auto simp: scb_fire_def foldl_onLoad_other_image split: option.splits)

text \<open>So do the platform's event on such a surface and a rescheduled poll of it.\<close>

lemma dom_event_other_image:
  assumes "images w i = Some im" and "i_srcImg im \<noteq> Some g"
  shows "images (dom_event w g success) i = Some im"
  using assms
  by (auto simp: dom_event_def imageOnLoad_def scb_fire_other_image split: option.splits)

lemma run_timer_other_image:
  assumes "images w i = Some im" and "timers w = t # ts" and "i_srcImg im \<noteq> Some (t_this t)"
  shows "images (run_timer w) i = Some im"
  using assms
  by (auto simp: run_timer_def imageOnLoad_def scb_fire_other_image split: option.splits)

text \<open>
  Called by the platform, \<^verbatim>\<open>imageOnLoad\<close> never reschedules itself: \<^verbatim>\<open>undefined <= 3\<close> is
  false, so a zero width goes straight to \<^verbatim>\<open>fire(false)\<close>.
\<close>

lemma imageOnLoad_event: "imageOnLoad w g success Undef = scb_fire w g (\<not> success)"
  by (auto simp: imageOnLoad_def scb_fire_def split: option.splits)

text \<open>
  Called with a number, it polls while the number is at most 3 and then fires \<^verbatim>\<open>false\<close>,
  which \<^verbatim>\<open>_onLoad\<close> reads as the absence of an error.
\<close>

lemma imageOnLoad_polls:
  assumes "surfaces w g = Some s" and "\<not> truthy (s_width s)" and "js_le n (Fin 3)"
  shows "imageOnLoad w g True n =
           w\<lparr>timers := timers w @
               [\<lparr> t_this = g, t_success = True, t_failCount = js_add (js_or n (Fin 0)) (Fin 1) \<rparr>]\<rparr>"
  using assms by (simp add: imageOnLoad_def)

lemma imageOnLoad_exhausted:
  assumes "surfaces w g = Some s" and "\<not> truthy (s_width s)" and "\<not> js_le n (Fin 3)"
  shows "imageOnLoad w g True n = scb_fire w g False"
  using assms by (simp add: imageOnLoad_def)

text \<open>A call that returned, returned the world the examples take from it.\<close>

lemma returned_eq: "\<not> isl r \<Longrightarrow> r = Inr (returned r)"
  by (cases r) (simp_all add: returned_def)

text \<open>Every call the example worlds are taken from returned.\<close>

lemma examples_returned:
  "\<not> isl (Image_init ex_env world0 ex_opts)
   \<and> \<not> isl (Image_init ex_env ex_world ex_opts)
   \<and> \<not> isl (setURL ex_env ex_world 0 (Some ''b.png'') False)
   \<and> \<not> isl (Image_init ex_env world0 ex_opts_scaled)
   \<and> \<not> isl (Image_init ex_env (returned (Image_init ex_env world0 ex_opts_scaled)) ex_opts)
   \<and> \<not> isl (Image_init ex_env_bare world0 ex_opts)"
  by code_simp


lemma cache_get_new_image:
  "cache_get e (w\<lparr>images := ims, next_iid := n\<rparr>) u = cache_get e w u"
  by (simp add: cache_get_def split: option.splits)

lemma cache_get_put:
  assumes "u \<noteq> ''__proto__''"
  shows "cache_get e (cache_put w u g) u = Entry g"
  using assms by (simp add: cache_get_def cache_put_def)



lemma resolve_alien:
  assumes "cache_get e w u = Alien" and "u \<noteq> []"
  shows "resolve_img e w None (Some u) False = (Alien, Some u)"
  using assms by (simp add: resolve_img_def)



lemma init_unfold:
  assumes "o_srcImage opts = None" and "\<not> o_forceReload opts"
    and "murl (i_map (init_fields e opts)) = Some u"
  shows "Image_init e w opts =
           Image_setSrcImg e
             (w\<lparr>images := (images w)(next_iid w \<mapsto> init_fields e opts),
                next_iid := Suc (next_iid w)\<rparr>)
             (next_iid w) None (Some u) False"
  using assms by (simp add: Image_init_def Let_def)

text \<open>
  Under a name the cache object inherits with a value that is no surface, such as
  \<^verbatim>\<open>toString\<close>, the constructor throws.
\<close>

lemma init_inherited_name_throws:
  assumes "o_srcImage opts = None" and "\<not> o_forceReload opts"
    and "murl (i_map (init_fields e opts)) = Some u" and "u \<noteq> []"
    and "cache_get e w u = Alien"
  shows "Image_init e w opts = Inl TypeError"
proof -
  let ?wa = "w\<lparr>images := (images w)(next_iid w \<mapsto> init_fields e opts),
                next_iid := Suc (next_iid w)\<rparr>"
  have "cache_get e ?wa u = Alien"
    using assms(5) by (simp add: cache_get_new_image)
  then have "resolve_img e ?wa None (Some u) False = (Alien, Some u)"
    using assms(4) by (rule resolve_alien)
  then show ?thesis
    unfolding init_unfold [OF assms(1,2,3)] by (simp add: Image_setSrcImg_def)
qed

lemma init_toString_throws:
  "Image_init ex_env world0 (ex_opts\<lparr>o_url := Some ''toString''\<rparr>) = Inl TypeError"
proof -
  have "murl (i_map (init_fields ex_env (ex_opts\<lparr>o_url := Some ''toString''\<rparr>))) = Some ''toString''"
    by code_simp
  moreover have "cache_get ex_env world0 ''toString'' = Alien"
    by code_simp
  ultimately show ?thesis
    by (intro init_inherited_name_throws) (simp_all add: ex_opts_def)
qed

text \<open>On a context without filters, and on the native path, \<^verbatim>\<open>render\<close> is the plain blit.\<close>

lemma render_no_filters:
  "isNative p \<or> c_filters c = None \<Longrightarrow>
   render p gs im c args = (render_plain gs im (c_target c) args, Inr ())"
  by (auto simp: render_def render_plain_def split: prod.splits)

text \<open>When \<^verbatim>\<open>render\<close> returns, the last call it issued is the blit onto the destination.\<close>

lemma render_last_blit:
  assumes "n_fired (i_cb im)" and "render p gs im c args = (gs', Inr ())"
    and "rects im args = (srcX, srcY, srcW, srcH, destX, destY, destW, destH)"
  shows "\<exists>gs1 src sx sy.
           gs' = issue gs1 [DrawImage (c_target c) src sx sy srcW srcH destX destY destW destH]
           \<and> (isNative p \<or> c_filters c = None \<longrightarrow>
                gs1 = gs \<and> src = Surf (i_srcImg im) \<and> sx = srcX \<and> sy = srcY)"
  using assms
  by (auto simp: render_def Image_renderImage_def
      split: option.splits prod.splits sum.splits if_splits)



lemma honoured_None: "(honoured_filter fs = None) = (\<forall>r. \<not> descriptor_present fs r)"
proof -
  have "r \<in> set filter_precedence" for r
    by (cases r) (simp_all add: filter_precedence_def)
  then show ?thesis by (auto simp: honoured_filter_def find_None_iff)
qed


text \<open>\<^verbatim>\<open>getImageData\<close> throws exactly when there is no document or a dimension is falsy.\<close>

lemma getImageData_throws_iff:
  "(\<exists>thrown. snd (getImageData p gs im x y width height) = Inl thrown)
   = (\<not> hasDocument p \<or> \<not> truthy (mwidth (i_map im)) \<or> \<not> truthy (mheight (i_map im)))"
  by (auto simp: getImageData_def Let_def)

subsection \<open>The logical size\<close>

text \<open>
  Claim C4, as stated: for every Image, \<^verbatim>\<open>getWidth()\<close> and \<^verbatim>\<open>getHeight()\<close> are 0 while the
  dimension is the sentinel -1. It fails on the Image constructed for \<^verbatim>\<open>a.png\<close> where the
  resource loader leaves the map as \<^verbatim>\<open>ImageMap.init\<close> made it: no scale was ever assigned,
  and \<^verbatim>\<open>0 / undefined\<close> is NaN.
\<close>

theorem unset_scale_logical_size_counterexample:
  "images ex_bare_world 0 = Some ex_bare
   \<and> mwidth (i_map ex_bare) = Fin (- 1) \<and> mheight (i_map ex_bare) = Fin (- 1)
   \<and> getWidth ex_bare = NaN \<and> getHeight ex_bare = NaN
   \<and> getWidth ex_bare \<noteq> Fin 0 \<and> getHeight ex_bare \<noteq> Fin 0"
  by code_simp

text \<open>
  Claim C4, amended. For every Image, \<^verbatim>\<open>getWidth()\<close> is
  \<^verbatim>\<open>(width + marginLeft + marginRight) / scale\<close> and \<^verbatim>\<open>getHeight()\<close> is
  \<^verbatim>\<open>(height + marginTop + marginBottom) / scale\<close> when the dimension of the region map is
  resolved, whatever the map's scale. While the dimension is the sentinel -1, each is 0
  when the map's scale is a number other than 0 and NaN, and NaN when the scale is 0, NaN
  or not set.
\<close>

theorem getWidth_getHeight_logical_size:
  "getWidth im =
     (if mwidth (i_map im) = Fin (- 1) then (if truthy (mscale (i_map im)) then Fin 0 else NaN)
      else js_div (js_add (js_add (mwidth (i_map im)) (marginLeft (i_map im)))
                          (marginRight (i_map im))) (mscale (i_map im)))
   \<and> getHeight im =
     (if mheight (i_map im) = Fin (- 1) then (if truthy (mscale (i_map im)) then Fin 0 else NaN)
      else js_div (js_add (js_add (mheight (i_map im)) (marginTop (i_map im)))
                          (marginBottom (i_map im))) (mscale (i_map im)))"
  by (simp add: getWidth_def getHeight_def Let_def div_zero_truthy div_zero_falsy)

theorem getWidth_getHeight_logical_size_witness:
  "getWidth ex_image = Fin 50 \<and> getHeight ex_image = Fin 20
   \<and> truthy (mscale (i_map ex_pending)) \<and> getWidth ex_pending = Fin 0 \<and> getHeight ex_pending = Fin 0
   \<and> \<not> truthy (mscale (i_map ex_bare)) \<and> getWidth ex_bare = NaN"
  using getWidth_getHeight_logical_size [of ex_image] getWidth_getHeight_logical_size [of ex_pending]
    getWidth_getHeight_logical_size [of ex_bare]
  by (simp add: ex_image_def ex_pending_def ex_bare_def js_div_def js_add_def)

subsection \<open>Mutators and the bounds notification\<close>

text \<open>
  Claim C9, as stated: every public mutation of the rectangle or the margins fires
  \<^verbatim>\<open>changeBounds\<close>. It fails at \<^verbatim>\<open>setSourceX(5)\<close> on the example Image: the map changes and
  nothing is published.
\<close>

theorem setSourceX_publishes_nothing_counterexample:
  "mx (i_map (fst (setSourceX ex_image (Fin 5)))) \<noteq> mx (i_map ex_image)
   \<and> ''changeBounds'' \<notin> set (snd (setSourceX ex_image (Fin 5)))"
  by (simp add: setSourceX_def ex_image_def)

text \<open>
  Claim C9, amended: \<^verbatim>\<open>setBounds\<close>/\<^verbatim>\<open>setMap\<close> publishes \<^verbatim>\<open>changeBounds\<close>, once; the
  eight single-field mutators publish nothing.
\<close>

theorem setBounds_publishes_changeBounds:
  "snd (setBounds im x y w h mTop mRight mBottom mLeft) = [''changeBounds'']
   \<and> snd (setSourceX im v) = [] \<and> snd (setSourceY im v) = []
   \<and> snd (setSourceW im v) = [] \<and> snd (setSourceH im v) = []
   \<and> snd (setMarginTop im v) = [] \<and> snd (setMarginRight im v) = []
   \<and> snd (setMarginBottom im v) = [] \<and> snd (setMarginLeft im v) = []"
  by (simp add: setBounds_def setSourceX_def setSourceY_def setSourceW_def setSourceH_def
      setMarginTop_def setMarginRight_def setMarginBottom_def setMarginLeft_def)

subsection \<open>Load completion\<close>

text \<open>
  Claim C1, at its failing input: the surface of a pending Image fires \<^verbatim>\<open>load\<close> while its
  width is zero. No poll is scheduled, the error flag stays clear and the notifier fires
  with the Image as for a successful load.
\<close>

theorem zero_width_load_reports_success:
  "images ex_world 0 = Some ex_pending
   \<and> map_option s_width (surfaces ex_world 0) = Some (Fin 0)
   \<and> timers (dom_event ex_world 0 True) = []
   \<and> images (dom_event ex_world 0 True) 0 = Some ex_zero_width
   \<and> \<not> isError ex_zero_width
   \<and> i_cb ex_zero_width = \<lparr> n_fired = True, n_args = Some Ready \<rparr>"
  by code_simp

text \<open>
  Claim C2. A completion whose surface is not the one the Image currently holds (the Image
  has moved on through \<^verbatim>\<open>setSource\<close> or \<^verbatim>\<open>setURL\<close>) leaves the Image as it is: region map,
  notifier and error flag.
\<close>

theorem stale_completion_ignored:
  assumes "images w i = Some im" and "i_srcImg im \<noteq> Some g"
  shows "images (imageOnLoad w g success failCount) i = Some im"
  using assms
  by (auto simp: imageOnLoad_def scb_fire_other_image split: option.splits)

theorem stale_completion_ignored_witness:
  "images ex_superseded 0 = Some ex_second \<and> i_srcImg ex_second \<noteq> Some 0
   \<and> map_option (map_option scb_run \<circ> s_cb) (surfaces ex_superseded 0) = Some (Some [0])
   \<and> images (imageOnLoad ex_superseded 0 True Undef) 0 = Some ex_second"
proof -
  have h1: "images ex_superseded 0 = Some ex_second" by code_simp
  have h2: "i_srcImg ex_second \<noteq> Some 0" by code_simp
  have h3: "map_option (map_option scb_run \<circ> s_cb) (surfaces ex_superseded 0) = Some (Some [0])"
    by code_simp
  show ?thesis using stale_completion_ignored [OF h1 h2] h1 h2 h3 by simp
qed

text \<open>
  Claim C10. A successful completion on an Image whose scale is not 1 and whose map had a
  width or a height before the load writes the map's width and height, inferred from the
  aspect ratio where missing, into the surface itself, which other Images may hold too;
  no other Image is touched. \<^verbatim>\<open>setImageData\<close> changes nothing.
\<close>

theorem onLoad_overwrites_shared_surface:
  assumes "images w i = Some im" and "i_srcImg im = Some g" and "surfaces w g = Some s"
    and "i_scale im \<noteq> Fin 1"
    and "mwidth (i_map im) \<noteq> Fin (- 1) \<or> mheight (i_map im) \<noteq> Fin (- 1)"
    and "W = (if mwidth (i_map im) = Fin (- 1)
              then js_div (js_mul (s_width s) (mheight (i_map im))) (s_height s)
              else mwidth (i_map im))"
    and "H = (if mheight (i_map im) = Fin (- 1)
              then js_div (js_mul (s_height s) W) (s_width s)
              else mheight (i_map im))"
    and "w' = Image_onLoad w i False g"
  shows "surfaces w' g = Some (s\<lparr>s_width := W, s_height := H\<rparr>)
       \<and> map_option i_map (images w' i)
           = Some ((i_map im)\<lparr>mwidth := W, mheight := H, murl := s_src s\<rparr>)
       \<and> (\<forall>j. j \<noteq> i \<longrightarrow> images w' j = images w j)
       \<and> setImageData w' i d = w'"
  using assms
  by (auto simp: Image_onLoad_def infer_dims_def Let_def setImageData_def)

theorem onLoad_overwrites_shared_surface_witness:
  "images ex_shared 0 = Some ex_scaled \<and> i_srcImg ex_scaled = Some 0
   \<and> surfaces ex_shared 0 = Some ex_surface \<and> i_scale ex_scaled \<noteq> Fin 1
   \<and> mheight (i_map ex_scaled) \<noteq> Fin (- 1)
   \<and> images ex_shared 1 = Some ex_pending \<and> i_srcImg ex_pending = Some 0
   \<and> surfaces (Image_onLoad ex_shared 0 False 0) 0
       = Some (ex_surface\<lparr>s_width := Fin 100, s_height := Fin 50\<rparr>)
   \<and> images (Image_onLoad ex_shared 0 False 0) 1 = Some ex_pending"
proof -
  have h1: "images ex_shared 0 = Some ex_scaled" by code_simp
  have h2: "i_srcImg ex_scaled = Some 0" by code_simp
  have h3: "surfaces ex_shared 0 = Some ex_surface" by code_simp
  have h4: "i_scale ex_scaled \<noteq> Fin 1" by code_simp
  have h5: "mheight (i_map ex_scaled) \<noteq> Fin (- 1)" by code_simp
  have h5': "mwidth (i_map ex_scaled) \<noteq> Fin (- 1) \<or> mheight (i_map ex_scaled) \<noteq> Fin (- 1)"
    using h5 by simp
  have h6: "Fin 100 = (if mwidth (i_map ex_scaled) = Fin (- 1)
              then js_div (js_mul (s_width ex_surface) (mheight (i_map ex_scaled))) (s_height ex_surface)
              else mwidth (i_map ex_scaled))" by code_simp
  have h7: "Fin 50 = (if mheight (i_map ex_scaled) = Fin (- 1)
              then js_div (js_mul (s_height ex_surface) (Fin 100)) (s_width ex_surface)
              else mheight (i_map ex_scaled))" by code_simp
  have h8: "images ex_shared 1 = Some ex_pending" by code_simp
  have h9: "i_srcImg ex_pending = Some 0" by code_simp
  show ?thesis
    using onLoad_overwrites_shared_surface [OF h1 h2 h3 h4 h5' h6 h7 refl, where d = "()"]
      h1 h2 h3 h4 h5 h8 h9
    by auto
qed

subsection \<open>The surface cache\<close>




subsection \<open>Drawing\<close>

text \<open>
  Claim C5. A draw call of a loaded Image that returns ends with the blit onto the
  destination context. With fewer than 9 arguments (the context counted) the destination
  is split in proportion to the margins: \<^verbatim>\<open>scaleX = destW / (marginLeft + width + marginRight)\<close>,
  the blit goes to \<^verbatim>\<open>destX + scaleX * marginLeft\<close> with width \<^verbatim>\<open>scaleX * width\<close>, and likewise
  for Y and the height. With 9 or more arguments the blit reads the rectangle given in the
  call and writes the destination given in the call; the margins do not occur.
\<close>

theorem render_margin_proportional:
  assumes "n_fired (i_cb im)" and "render p gs im c args = (gs', Inr ())"
    and "m = i_map im"
    and "destX = dest_arg (arg args 5) (arg args 1)" and "destY = dest_arg (arg args 6) (arg args 2)"
    and "destW = dest_arg (arg args 7) (arg args 3)" and "destH = dest_arg (arg args 8) (arg args 4)"
    and "scaleX = js_div destW (js_add (js_add (marginLeft m) (mwidth m)) (marginRight m))"
    and "scaleY = js_div destH (js_add (js_add (marginTop m) (mheight m)) (marginBottom m))"
  shows "(Suc (length args) < 9 \<longrightarrow>
            (\<exists>gs1 src sx sy.
               gs' = issue gs1 [DrawImage (c_target c) src sx sy (mwidth m) (mheight m)
                                  (js_add destX (js_mul scaleX (marginLeft m)))
                                  (js_add destY (js_mul scaleY (marginTop m)))
                                  (js_mul scaleX (mwidth m)) (js_mul scaleY (mheight m))]))
       \<and> (9 \<le> Suc (length args) \<longrightarrow>
            (\<exists>gs1 src sx sy.
               gs' = issue gs1 [DrawImage (c_target c) src sx sy (arg args 3) (arg args 4)
                                  destX destY destW destH]
               \<and> (isNative p \<or> c_filters c = None \<longrightarrow>
                    src = Surf (i_srcImg im) \<and> sx = arg args 1 \<and> sy = arg args 2)))"
proof (cases "Suc (length args) < 9")
  case True
  have r: "rects im args = (mx m, my m, mwidth m, mheight m,
               js_add destX (js_mul scaleX (marginLeft m)),
               js_add destY (js_mul scaleY (marginTop m)),
               js_mul scaleX (mwidth m), js_mul scaleY (mheight m))"
    using True assms(3-9) by (simp add: rects_def Let_def)
  from render_last_blit [OF assms(1,2) r] True show ?thesis by fastforce
next
  case False
  have r: "rects im args =
             (arg args 1, arg args 2, arg args 3, arg args 4, destX, destY, destW, destH)"
    using False assms(3-9) by (simp add: rects_def Let_def)
  from render_last_blit [OF assms(1,2) r] False show ?thesis by fastforce
qed

text \<open>
  The example of the claim: margins of 10 around a width of 80, drawn 50 wide. The scale is
  1/2, each margin takes 5 and the content 40.
\<close>

theorem render_margin_proportional_witness:
  "n_fired (i_cb ex_image)
   \<and> render ex_platform gs0 ex_image ex_ctx [Fin 0, Fin 0, Fin 50, Fin 20]
       = (issue gs0 [DrawImage (UserCtx 0) (Surf (Some 0)) (Fin 0) (Fin 0) (Fin 80) (Fin 40)
                       (Fin 5) (Fin 0) (Fin 40) (Fin 20)], Inr ())
   \<and> js_div (Fin 50) (js_add (js_add (marginLeft (i_map ex_image)) (mwidth (i_map ex_image)))
                               (marginRight (i_map ex_image))) = Fin (1 / 2)
   \<and> js_mul (Fin (1 / 2)) (marginLeft (i_map ex_image)) = Fin 5
   \<and> js_mul (Fin (1 / 2)) (marginRight (i_map ex_image)) = Fin 5
   \<and> (\<exists>gs1 src sx sy.
         issue gs0 [DrawImage (UserCtx 0) (Surf (Some 0)) (Fin 0) (Fin 0) (Fin 80) (Fin 40)
                      (Fin 5) (Fin 0) (Fin 40) (Fin 20)]
         = issue gs1 [DrawImage (UserCtx 0) src sx sy (Fin 80) (Fin 40)
                        (Fin 5) (Fin 0) (Fin 40) (Fin 20)])"
proof -
  have h1: "n_fired (i_cb ex_image)" by (simp add: ex_image_def)
  have h2: "render ex_platform gs0 ex_image ex_ctx [Fin 0, Fin 0, Fin 50, Fin 20]
       = (issue gs0 [DrawImage (UserCtx 0) (Surf (Some 0)) (Fin 0) (Fin 0) (Fin 80) (Fin 40)
                       (Fin 5) (Fin 0) (Fin 40) (Fin 20)], Inr ())"
    by code_simp
  have a: "js_div (Fin 50) (js_add (js_add (marginLeft (i_map ex_image)) (mwidth (i_map ex_image)))
                               (marginRight (i_map ex_image))) = Fin (1 / 2)"
    by (simp add: ex_image_def js_div_def js_add_def)
  have b: "js_mul (Fin (1 / 2)) (marginLeft (i_map ex_image)) = Fin 5"
    "js_mul (Fin (1 / 2)) (marginRight (i_map ex_image)) = Fin 5"
    by (simp_all add: ex_image_def js_mul_def)
  have c: "\<exists>gs1 src sx sy.
         issue gs0 [DrawImage (UserCtx 0) (Surf (Some 0)) (Fin 0) (Fin 0) (Fin 80) (Fin 40)
                      (Fin 5) (Fin 0) (Fin 40) (Fin 20)]
         = issue gs1 [DrawImage (UserCtx 0) src sx sy (Fin 80) (Fin 40)
                        (Fin 5) (Fin 0) (Fin 40) (Fin 20)]"
    using render_margin_proportional [OF h1 h2 refl refl refl refl refl refl refl]
    by (simp add: dest_arg_def arg_def js_or_def ex_image_def ex_ctx_def js_div_def js_add_def
        js_mul_def)
  show ?thesis using h1 h2 a b c by simp
qed



text \<open>
  Claim C7, as stated: a draw call is a no-op on an Image that has not completed loading
  or has errored. It fails on the errored Image: the failure fired the notifier, which is
  all \<^verbatim>\<open>render\<close> asks for, and the blit is issued.
\<close>

theorem render_errored_blits_counterexample:
  "images (dom_event ex_world 0 False) 0 = Some ex_errored \<and> isError ex_errored
   \<and> render ex_platform gs0 ex_errored ex_ctx [Fin 0, Fin 0, Fin 50, Fin 20]
       = (issue gs0 [DrawImage (UserCtx 0) (Surf (Some 0)) (Fin 0) (Fin 0) (Fin (- 1)) (Fin (- 1))
                       (Fin 0) (Fin 0) (Fin 50) (Fin 20)], Inr ())"
  by code_simp

text \<open>
  Claim C7, amended: a draw call on an Image whose completion notifier has not fired is a
  no-op; nothing is issued to any context or scratch canvas.
\<close>

theorem render_pending_noop:
  assumes "\<not> n_fired (i_cb im)"
  shows "render p gs im c args = (gs, Inr ())"
  using assms by (simp add: render_def)

theorem render_pending_noop_witness:
  "images ex_world 0 = Some ex_pending \<and> \<not> n_fired (i_cb ex_pending)
   \<and> render ex_platform gs0 ex_pending ex_filter_ctx [Fin 0, Fin 0, Fin 50, Fin 20] = (gs0, Inr ())"
proof -
  have h0: "images ex_world 0 = Some ex_pending" by code_simp
  have h1: "\<not> n_fired (i_cb ex_pending)" by code_simp
  show ?thesis using render_pending_noop [OF h1] h0 h1 by simp
qed

text \<open>
  Claim C8, at its failing input: \<^verbatim>\<open>getImageData()\<close> on the pending Image, whose dimensions
  are the sentinel -1, in an environment with a document. Nothing is thrown; the scratch
  canvas is sized -1 by -1 and the platform's pixel read is returned.
\<close>

theorem getImageData_unresolved_returns:
  "images ex_world 0 = Some ex_pending
   \<and> mwidth (i_map ex_pending) = Fin (- 1) \<and> mheight (i_map ex_pending) = Fin (- 1)
   \<and> hasDocument ex_platform
   \<and> getImageData ex_platform gs0 ex_pending Undef Undef Undef Undef
       = (\<lparr> g_filterCanvas = False, g_imgDataCanvas = True,
            g_ops = [NewCanvas ImgDataCanvas, SetWidth ImgDataCanvas (Fin (- 1)),
                     SetHeight ImgDataCanvas (Fin (- 1)), Clear ImgDataCtx,
                     GetImageData ImgDataCtx (Fin 0) (Fin 0) (Fin (- 1)) (Fin (- 1))] \<rparr>,
          Inr \<lparr> d_data = [], d_width = Fin (- 1), d_height = Fin (- 1) \<rparr>)"
  by code_simp

theorem getImageData_unresolved_returns_witness:
  "snd (getImageData ex_platform gs0 ex_pending Undef Undef Undef Undef) \<noteq> Inl ''Not loaded''"
  using getImageData_unresolved_returns by simp

end
